theory Spec2Isabelle
  imports Main
begin

section \<open>The provider store of the exchange front end\<close>

text \<open>
  The repository holds two variants of the class \<open>ProviderStore\<close>: the one of
  \<open>src/unnamed/part_000\<close> (with the Gnosis Safe SDK, account tracking and transaction
  encoding; called the full variant below) and the one of \<open>src/src/stores/Provider.ts\<close>
  (the lite variant, whose definitions carry the suffix \<open>_lite\<close>).

  Every method becomes a function from the store before the call to the store after it.
  What the outside world answers to a call (a network query, an account query, a
  constructor of the RPC library) is an argument of the function, so that each path of a
  \<open>try\<close>/\<open>catch\<close> is a branch of the model. An \<open>async\<close> method is modelled as
  running to completion: interleavings of two methods in flight are outside the model.
  Console output is not modelled.
\<close>

subsection \<open>JavaScript values\<close>

text \<open>
  A field of \<open>providerStatus\<close> that the constructor never assigns reads as
  \<open>undefined\<close>; the \<open>catch\<close> blocks assign \<open>null\<close>.
\<close>

datatype 'a jsval = Undefined | Null | Val 'a

text \<open>Truthiness as the tests \<open>!account\<close> and \<open>!chainId\<close> read it.\<close>

fun truthy_str :: "string jsval \<Rightarrow> bool" where
  "truthy_str (Val s) = (s \<noteq> [])"
| "truthy_str _ = False"

fun truthy_num :: "int jsval \<Rightarrow> bool" where
  "truthy_num (Val n) = (n \<noteq> 0)"
| "truthy_num _ = False"

text \<open>The comparison \<open>x != null\<close>, which \<open>undefined\<close> fails as well.\<close>

fun non_null :: "'a jsval \<Rightarrow> bool" where
  "non_null (Val x) = True"
| "non_null _ = False"

subsection \<open>Enumerations of the source\<close>

datatype ContractTypes = BPool | BFactory | TestToken | ExchangeProxy | Multicall | TestTokenBytes

datatype ERRORS =
    UntrackedChainId
  | ContextNotFound
  | BlockchainActionNoAccount
  | BlockchainActionNoChainId
  | BlockchainActionNoResponse
  | NoWeb3

text \<open>What a method can throw: \<open>new Error(ERRORS.x)\<close>, a \<open>TypeError\<close> of the
  language (a property read on \<open>null\<close> or \<open>undefined\<close>), the RPC library's
  rejection of a string that is not an address, or its rejection of the parameters of a
  contract function.\<close>

datatype exn = Error ERRORS | TypeError | InvalidAddress | EncodeError

subsection \<open>Collaborators\<close>

text \<open>
  A wallet provider handle. \<open>has_on\<close> is the test \<open>provider.on\<close>,
  \<open>isMetaMask\<close> the flag of the same name; \<open>hid\<close> tells two handles apart.
\<close>

record provider =
  hid :: nat
  has_on :: bool
  isMetaMask :: bool

text \<open>An RPC client built by \<open>new ethers.providers.JsonRpcProvider\<close>;
  \<open>has_close\<close> is the test \<open>library.close\<close>.\<close>

record rpc_client =
  client_id :: nat
  has_close :: bool

datatype web3 = Web3Provider provider

text \<open>The value of \<open>activeProvider\<close>: a handle, or the string \<open>'backup'\<close>.\<close>

datatype active_provider = Injected provider | Backup

datatype event = chainChanged | accountsChanged | close | networkChanged

text \<open>The bound methods that are registered as listeners.\<close>

datatype handler = H_handleNetworkChanged | H_handleAccountsChanged | H_handleClose

type_synonym subscription = "provider \<times> event \<times> handler"

text \<open>Calls that reach a collaborator, in the order they are made.\<close>

datatype call =
    LibraryClose rpc_client
  | NewWeb3Provider provider
  | AutoRefreshOff provider
  | GetNetwork provider
  | ListAccounts provider
  | NewJsonRpcProvider
  | BackupGetNetwork rpc_client
  | BlockchainFetch bool
  | GetSigner rpc_client "string jsval"
  | NewContract string ContractTypes
  | Encode ContractTypes string

text \<open>
  The event emitter of a handle: \<open>on\<close> appends a registration,
  \<open>removeListener\<close> deletes at most one instance of it, the most recently added.
\<close>

definition on :: "subscription \<Rightarrow> subscription list \<Rightarrow> subscription list" where
  "on s ls = ls @ [s]"

definition removeListener :: "subscription \<Rightarrow> subscription list \<Rightarrow> subscription list" where
  "removeListener s ls = rev (remove1 s (rev ls))"

subsection \<open>The full variant: state\<close>

record SafeInfo =
  safeAddress :: string

record ProviderStatus =
  activeChainId :: "int jsval"
  account :: "string jsval"
  library :: "rpc_client jsval"
  active :: bool
  injectedLoaded :: bool
  injectedActive :: bool
  injectedChainId :: "int jsval"
  injectedWeb3 :: "web3 jsval"
  backUpLoaded :: bool
  backUpWeb3 :: "rpc_client jsval"
  activeProvider :: "active_provider jsval"
  error :: "ERRORS jsval"

text \<open>
  The store: \<open>chainData.currentBlockNumber\<close>, \<open>providerStatus\<close> and
  \<open>safeStatus.safeInfo\<close>, together with the part of the outside world that the
  methods change: the listeners registered on provider handles and the calls made to
  collaborators.
\<close>

record ProviderStore =
  currentBlockNumber :: int
  providerStatus :: ProviderStatus
  safeInfo :: "SafeInfo jsval"
  listeners :: "subscription list"
  calls :: "call list"

text \<open>The constructor. Its registration of \<open>setSafeInfo\<close> with the Gnosis Safe SDK
  shows in the model as \<open>setSafeInfo\<close> being one of the calls that can happen.\<close>

definition init_store :: ProviderStore where
  "init_store =
     \<lparr> currentBlockNumber = - 1,
       providerStatus =
         \<lparr> activeChainId = Undefined, account = Undefined, library = Undefined,
           active = False, injectedLoaded = False, injectedActive = False,
           injectedChainId = Undefined, injectedWeb3 = Undefined,
           backUpLoaded = False, backUpWeb3 = Undefined,
           activeProvider = Null, error = Undefined \<rparr>,
       safeInfo = Undefined,
       listeners = [],
       calls = [] \<rparr>"

definition setSafeInfo :: "ProviderStore \<Rightarrow> SafeInfo \<Rightarrow> ProviderStore" where
  "setSafeInfo st si = st\<lparr>safeInfo := Val si\<rparr>"

definition log_call :: "call \<Rightarrow> ProviderStore \<Rightarrow> ProviderStore" where
  "log_call c st = st\<lparr>calls := calls st @ [c]\<rparr>"

subsection \<open>The full variant: loadWeb3\<close>

text \<open>
  What the fallback endpoint answers inside the \<open>try\<close> of \<open>loadWeb3\<close>: the
  constructor throws, or \<open>getNetwork\<close> of the new client throws, or it returns a
  network whose \<open>chainId\<close> is given.
\<close>

datatype backup_reply =
    JsonRpcCtorThrows
  | GetNetworkThrows rpc_client
  | NetworkOk rpc_client int

text \<open>The \<open>catch\<close> block of \<open>loadWeb3\<close>.\<close>

definition loadWeb3_catch :: "ProviderStatus \<Rightarrow> ProviderStatus" where
  "loadWeb3_catch ps =
     ps\<lparr> injectedActive := False, backUpLoaded := False, account := Null,
         activeChainId := Null, backUpWeb3 := Null, library := Null, active := False,
         error := Val NoWeb3, activeProvider := Null \<rparr>"

text \<open>\<open>this.safeStatus.safeInfo && this.safeStatus.safeInfo.safeAddress\<close>\<close>

fun safe_account :: "SafeInfo jsval \<Rightarrow> string jsval" where
  "safe_account (Val si) = Val (safeAddress si)"
| "safe_account Null = Null"
| "safe_account Undefined = Undefined"

fun loadWeb3 :: "ProviderStore \<Rightarrow> backup_reply \<Rightarrow> ProviderStore" where
  "loadWeb3 st JsonRpcCtorThrows =
     st\<lparr> providerStatus := loadWeb3_catch (providerStatus st),
         calls := calls st @ [NewJsonRpcProvider] \<rparr>"
| "loadWeb3 st (GetNetworkThrows web3) =
     st\<lparr> providerStatus := loadWeb3_catch (providerStatus st),
         calls := calls st @ [NewJsonRpcProvider, BackupGetNetwork web3] \<rparr>"
| "loadWeb3 st (NetworkOk web3 chainId) =
     st\<lparr> providerStatus :=
           (providerStatus st)
             \<lparr> injectedActive := False, backUpLoaded := True,
               account := safe_account (safeInfo st),
               activeChainId := Val chainId, backUpWeb3 := Val web3,
               library := Val web3, activeProvider := Val Backup, active := True \<rparr>,
         calls := calls st @ [NewJsonRpcProvider, BackupGetNetwork web3] \<rparr>"

subsection \<open>The lite variant: state and loadWeb3\<close>

record ProviderStatus_lite =
  activeChainId_lite :: "int jsval"
  library_lite :: "rpc_client jsval"
  active_lite :: bool
  backUpLoaded_lite :: bool
  activeProvider_lite :: "active_provider jsval"
  error_lite :: "ERRORS jsval"

record ProviderStore_lite =
  currentBlockNumber_lite :: int
  providerStatus_lite :: ProviderStatus_lite
  listeners_lite :: "subscription list"
  calls_lite :: "call list"

definition init_store_lite :: ProviderStore_lite where
  "init_store_lite =
     \<lparr> currentBlockNumber_lite = - 1,
       providerStatus_lite =
         \<lparr> activeChainId_lite = Undefined, library_lite = Undefined,
           active_lite = False, backUpLoaded_lite = False,
           activeProvider_lite = Null, error_lite = Undefined \<rparr>,
       listeners_lite = [],
       calls_lite = [] \<rparr>"

definition loadWeb3_catch_lite :: "ProviderStatus_lite \<Rightarrow> ProviderStatus_lite" where
  "loadWeb3_catch_lite ps =
     ps\<lparr> backUpLoaded_lite := False, activeChainId_lite := Null, library_lite := Null,
         active_lite := False, error_lite := Val NoWeb3, activeProvider_lite := Null \<rparr>"

fun loadWeb3_lite :: "ProviderStore_lite \<Rightarrow> backup_reply \<Rightarrow> ProviderStore_lite" where
  "loadWeb3_lite st JsonRpcCtorThrows =
     st\<lparr> providerStatus_lite := loadWeb3_catch_lite (providerStatus_lite st),
         calls_lite := calls_lite st @ [NewJsonRpcProvider] \<rparr>"
| "loadWeb3_lite st (GetNetworkThrows web3) =
     st\<lparr> providerStatus_lite := loadWeb3_catch_lite (providerStatus_lite st),
         calls_lite := calls_lite st @ [NewJsonRpcProvider, BackupGetNetwork web3] \<rparr>"
| "loadWeb3_lite st (NetworkOk web3 chainId) =
     st\<lparr> providerStatus_lite :=
           (providerStatus_lite st)
             \<lparr> backUpLoaded_lite := True, activeChainId_lite := Val chainId,
               library_lite := Val web3, activeProvider_lite := Val Backup,
               active_lite := True \<rparr>,
         calls_lite := calls_lite st @ [NewJsonRpcProvider, BackupGetNetwork web3] \<rparr>"

subsection \<open>The full variant: loadProvider\<close>

text \<open>The four registrations, in the order the source makes them.\<close>

definition subscriptions :: "provider \<Rightarrow> subscription list" where
  "subscriptions p =
     [ (p, chainChanged, H_handleNetworkChanged),
       (p, accountsChanged, H_handleAccountsChanged),
       (p, close, H_handleClose),
       (p, networkChanged, H_handleNetworkChanged) ]"

text \<open>
  \<open>if (activeProvider && activeProvider.on)\<close>: the string \<open>'backup'\<close> has no
  \<open>on\<close>, nor has \<open>null\<close>.
\<close>

fun removeOldListeners :: "active_provider jsval \<Rightarrow> subscription list \<Rightarrow> subscription list" where
  "removeOldListeners (Val (Injected p)) ls =
     (if has_on p then fold removeListener (subscriptions p) ls else ls)"
| "removeOldListeners _ ls = ls"

text \<open>\<open>if (library && library.close)\<close>: the client that is closed, if any.\<close>

fun closing :: "rpc_client jsval \<Rightarrow> rpc_client option" where
  "closing (Val l) = (if has_close l then Some l else None)"
| "closing _ = None"

text \<open>
  What the outside world answers inside the \<open>try\<close> of \<open>loadProvider\<close>: whether
  \<open>library.close()\<close> rejects, whether \<open>new Web3Provider(provider)\<close> throws, the
  chain id of \<open>getNetwork\<close> and the list of \<open>listAccounts\<close> (\<open>None\<close> when the
  query throws).
\<close>

record injected_env =
  close_rejects :: bool
  web3_ctor_throws :: bool
  network_reply :: "int option"
  accounts_reply :: "string list option"

text \<open>
  The \<open>try\<close> block: \<open>Inr\<close> is the store when the block ran to its end,
  \<open>Inl\<close> the store at the point where something threw. A \<open>provider\<close> that is
  \<open>null\<close> or \<open>undefined\<close> throws when it is wrapped.
\<close>

definition loadProvider_try ::
  "ProviderStore \<Rightarrow> provider jsval \<Rightarrow> injected_env \<Rightarrow> ProviderStore + ProviderStore" where
  "loadProvider_try st pv env =
     (let st1 = st\<lparr>listeners :=
                   removeOldListeners (activeProvider (providerStatus st)) (listeners st)\<rparr>;
          old = closing (library (providerStatus st1));
          st2 = (case old of Some l \<Rightarrow> log_call (LibraryClose l) st1 | None \<Rightarrow> st1)
      in if old \<noteq> None \<and> close_rejects env then Inl st2
         else case pv of
           Val p \<Rightarrow>
             (let st3 = log_call (NewWeb3Provider p) st2
              in if web3_ctor_throws env then Inl st3
                 else
                   let st4 = (if isMetaMask p then log_call (AutoRefreshOff p) st3 else st3);
                       st5 = (if has_on p
                              then st4\<lparr>listeners := fold on (subscriptions p) (listeners st4)\<rparr>
                              else st4);
                       st6 = log_call (GetNetwork p) st5
                   in case network_reply env of
                        None \<Rightarrow> Inl st6
                      | Some chainId \<Rightarrow>
                          (let st7 = log_call (ListAccounts p) st6
                           in case accounts_reply env of
                                None \<Rightarrow> Inl st7
                              | Some accounts \<Rightarrow>
                                  Inr (st7\<lparr>providerStatus :=
                                         (providerStatus st7)
                                           \<lparr> injectedLoaded := True,
                                             injectedChainId := Val chainId,
                                             account := (case accounts of [] \<Rightarrow> Null
                                                         | a # _ \<Rightarrow> Val a),
                                             injectedWeb3 := Val (Web3Provider p),
                                             activeProvider := Val (Injected p) \<rparr>\<rparr>)))
         | _ \<Rightarrow> Inl st2)"

text \<open>The \<open>catch\<close> block of \<open>loadProvider\<close>.\<close>

definition loadProvider_catch :: "ProviderStatus \<Rightarrow> ProviderStatus" where
  "loadProvider_catch ps =
     ps\<lparr> injectedLoaded := False, injectedChainId := Null, account := Null,
         library := Null, active := False, activeProvider := Null \<rparr>"

definition loadProvider :: "ProviderStore \<Rightarrow> provider jsval \<Rightarrow> injected_env \<Rightarrow> ProviderStore" where
  "loadProvider st pv env =
     (case loadProvider_try st pv env of
        Inr st' \<Rightarrow> st'
      | Inl st' \<Rightarrow> st'\<lparr>providerStatus := loadProvider_catch (providerStatus st')\<rparr>)"

text \<open>A call of \<open>loadProvider\<close> is successful when its \<open>try\<close> block does not throw.\<close>

definition loadProvider_succeeds :: "ProviderStore \<Rightarrow> provider jsval \<Rightarrow> injected_env \<Rightarrow> bool" where
  "loadProvider_succeeds st pv env = (case loadProvider_try st pv env of Inr _ \<Rightarrow> True | Inl _ \<Rightarrow> False)"

subsection \<open>The full variant: event handlers\<close>

definition handleNetworkChanged :: "ProviderStore \<Rightarrow> string + int \<Rightarrow> backup_reply \<Rightarrow> ProviderStore" where
  "handleNetworkChanged st networkId r =
     (if active (providerStatus st)
      then log_call (BlockchainFetch True) (loadWeb3 st r)
      else st)"

definition handleClose :: "ProviderStore \<Rightarrow> backup_reply \<Rightarrow> ProviderStore" where
  "handleClose st r = (if active (providerStatus st) then loadWeb3 st r else st)"

fun handleAccountsChanged :: "ProviderStore \<Rightarrow> string list \<Rightarrow> backup_reply \<Rightarrow> ProviderStore" where
  "handleAccountsChanged st [] r = handleClose st r"
| "handleAccountsChanged st (a # as) r =
     log_call (BlockchainFetch True)
       (st\<lparr>providerStatus := (providerStatus st)\<lparr>account := Val a\<rparr>\<rparr>)"

subsection \<open>The full variant: contract binding and transaction encoding\<close>

text \<open>
  The classes \<open>UncheckedJsonRpcSigner\<close> and \<open>ethers.Contract\<close> are taken as
  constructors that store their arguments (a contract bound to a signer resolves its
  address later, not in the constructor); \<open>abi\<close> stands for \<open>schema[type]\<close>, the
  entry of the ABI table for the contract type.
\<close>

datatype signer_or_provider =
    UncheckedJsonRpcSigner rpc_client string
  | Library "rpc_client jsval"

record Contract =
  address :: string
  abi :: ContractTypes
  signerOrProvider :: signer_or_provider

record Transaction =
  tx_data :: string
  tx_to :: string
  tx_value :: int

text \<open>
  The RPC library and the ABI table are not part of the sources at hand; what the methods
  need of them is an argument:
  \<^item> \<open>accepts_address a\<close>: whether \<open>library.getSigner(a)\<close> takes the string
    \<open>a\<close> for an address; it throws "invalid address" when it does not;
  \<^item> \<open>abi_functions t action\<close>: the entry \<open>contract.interface.functions[action]\<close>
    of the ABI of contract type \<open>t\<close>, \<open>None\<close> when the ABI has no function of that
    name (the entry is \<open>undefined\<close>); the entry maps the parameters to the encoded
    call, or to \<open>None\<close> when \<open>encode\<close> rejects them.
\<close>

record 'p ethers_lib =
  accepts_address :: "string \<Rightarrow> bool"
  abi_functions :: "ContractTypes \<Rightarrow> string \<Rightarrow> ('p list \<Rightarrow> string option) option"

text \<open>
  \<open>getProviderOrSigner\<close> first evaluates \<open>library.getSigner(account)\<close> for its
  debug output. Reading \<open>getSigner\<close> throws a \<open>TypeError\<close> when the library is
  \<open>null\<close> or \<open>undefined\<close>; the call itself throws when \<open>account\<close> is a
  string that is not an address (with no account it picks the first signer). Then a
  signer is returned when \<open>account\<close> is truthy and the library itself otherwise.
\<close>

fun getProviderOrSigner ::
  "(string \<Rightarrow> bool) \<Rightarrow> ProviderStore \<Rightarrow> rpc_client jsval \<Rightarrow> string jsval \<Rightarrow>
   (exn + signer_or_provider) \<times> ProviderStore" where
  "getProviderOrSigner accepts st (Val l) (Val a) =
     (let st1 = log_call (GetSigner l (Val a)) st
      in if \<not> accepts a then (Inl InvalidAddress, st1)
         else if a \<noteq> []
         then (Inr (UncheckedJsonRpcSigner l a), log_call (GetSigner l (Val a)) st1)
         else (Inr (Library (Val l)), st1))"
| "getProviderOrSigner accepts st (Val l) acc =
     (Inr (Library (Val l)), log_call (GetSigner l acc) st)"
| "getProviderOrSigner accepts st lib acc = (Inl TypeError, st)"

definition getContract ::
  "(string \<Rightarrow> bool) \<Rightarrow> ProviderStore \<Rightarrow> ContractTypes \<Rightarrow> string \<Rightarrow> string jsval \<Rightarrow>
   (exn + Contract) \<times> ProviderStore" where
  "getContract accepts st ctype addr signerAccount =
     (if truthy_str signerAccount
      then (case getProviderOrSigner accepts st (library (providerStatus st)) signerAccount of
              (Inl e, st') \<Rightarrow> (Inl e, st')
            | (Inr sp, st') \<Rightarrow>
                (Inr \<lparr>address = addr, abi = ctype, signerOrProvider = sp\<rparr>,
                 log_call (NewContract addr ctype) st'))
      else (Inr \<lparr>address = addr, abi = ctype,
                 signerOrProvider = Library (library (providerStatus st))\<rparr>,
            log_call (NewContract addr ctype) st))"

text \<open>
  \<open>encodeTransaction\<close>. Reading \<open>encode\<close> of an entry that is \<open>undefined\<close>
  throws a \<open>TypeError\<close>. The argument \<open>overrides\<close> is never read.
\<close>

definition encodeTransaction ::
  "'p ethers_lib \<Rightarrow> ProviderStore \<Rightarrow> ContractTypes \<Rightarrow>
   string \<Rightarrow> string \<Rightarrow> 'p list \<Rightarrow> 'o option \<Rightarrow> (exn + Transaction) \<times> ProviderStore" where
  "encodeTransaction lib st contractType contractAddress action params overrides =
     (let chainId = activeChainId (providerStatus st);
          acc = account (providerStatus st)
      in if \<not> truthy_str acc then (Inl (Error BlockchainActionNoAccount), st)
         else if \<not> truthy_num chainId then (Inl (Error BlockchainActionNoChainId), st)
         else case getContract (accepts_address lib) st contractType contractAddress acc of
                (Inl e, st') \<Rightarrow> (Inl e, st')
              | (Inr contract, st') \<Rightarrow>
                  (case abi_functions lib (abi contract) action of
                     None \<Rightarrow> (Inl TypeError, st')
                   | Some f \<Rightarrow>
                       (case f params of
                          None \<Rightarrow> (Inl EncodeError, log_call (Encode (abi contract) action) st')
                        | Some d \<Rightarrow>
                            (Inr \<lparr>tx_data = d, tx_to = address contract, tx_value = 0\<rparr>,
                             log_call (Encode (abi contract) action) st'))))"

subsection \<open>The full variant: a call of any state-changing method\<close>

datatype op =
    LoadProvider "provider jsval" injected_env
  | LoadWeb3 backup_reply
  | HandleNetworkChanged "string + int" backup_reply
  | HandleAccountsChanged "string list" backup_reply
  | HandleClose backup_reply
  | SetSafeInfo SafeInfo

fun perform :: "ProviderStore \<Rightarrow> op \<Rightarrow> ProviderStore" where
  "perform st (LoadProvider pv env) = loadProvider st pv env"
| "perform st (LoadWeb3 r) = loadWeb3 st r"
| "perform st (HandleNetworkChanged n r) = handleNetworkChanged st n r"
| "perform st (HandleAccountsChanged as r) = handleAccountsChanged st as r"
| "perform st (HandleClose r) = handleClose st r"
| "perform st (SetSafeInfo si) = setSafeInfo st si"

text \<open>A sequence of \<open>loadProvider\<close> calls, each of which must succeed.\<close>

fun loadProviders ::
  "ProviderStore \<Rightarrow> (provider jsval \<times> injected_env) list \<Rightarrow> ProviderStore option" where
  "loadProviders st [] = Some st"
| "loadProviders st ((pv, env) # rest) =
     (if loadProvider_succeeds st pv env
      then loadProviders (loadProvider st pv env) rest
      else None)"

text \<open>The handles that carry at least one listener of the store.\<close>

definition subscribed_handles :: "subscription list \<Rightarrow> provider set" where
  "subscribed_handles ls = fst ` set ls"

subsection \<open>The lite variant: loadProvider and event handlers\<close>

definition log_call_lite :: "call \<Rightarrow> ProviderStore_lite \<Rightarrow> ProviderStore_lite" where
  "log_call_lite c st = st\<lparr>calls_lite := calls_lite st @ [c]\<rparr>"

definition subscriptions_lite :: "provider \<Rightarrow> subscription list" where
  "subscriptions_lite p =
     [ (p, chainChanged, H_handleNetworkChanged),
       (p, close, H_handleClose),
       (p, networkChanged, H_handleNetworkChanged) ]"

fun removeOldListeners_lite :: "active_provider jsval \<Rightarrow> subscription list \<Rightarrow> subscription list" where
  "removeOldListeners_lite (Val (Injected p)) ls =
     (if has_on p then fold removeListener (subscriptions_lite p) ls else ls)"
| "removeOldListeners_lite _ ls = ls"

text \<open>
  The \<open>try\<close> block of the lite \<open>loadProvider\<close>; \<open>rejects\<close> says whether
  \<open>library.close()\<close> rejects. Reading \<open>isMetaMask\<close> of a \<open>provider\<close> that is
  \<open>null\<close> or \<open>undefined\<close> throws.
\<close>

definition loadProvider_try_lite ::
  "ProviderStore_lite \<Rightarrow> provider jsval \<Rightarrow> bool \<Rightarrow> ProviderStore_lite + ProviderStore_lite" where
  "loadProvider_try_lite st pv rejects =
     (let st1 = st\<lparr>listeners_lite :=
                   removeOldListeners_lite (activeProvider_lite (providerStatus_lite st))
                     (listeners_lite st)\<rparr>;
          old = closing (library_lite (providerStatus_lite st1));
          st2 = (case old of Some l \<Rightarrow> log_call_lite (LibraryClose l) st1 | None \<Rightarrow> st1)
      in if old \<noteq> None \<and> rejects then Inl st2
         else case pv of
           Val p \<Rightarrow>
             (let st3 = (if isMetaMask p then log_call_lite (AutoRefreshOff p) st2 else st2);
                  st4 = (if has_on p
                         then st3\<lparr>listeners_lite :=
                                   fold on (subscriptions_lite p) (listeners_lite st3)\<rparr>
                         else st3)
              in Inr (st4\<lparr>providerStatus_lite :=
                          (providerStatus_lite st4)\<lparr>activeProvider_lite := Val (Injected p)\<rparr>\<rparr>))
         | _ \<Rightarrow> Inl st2)"

definition loadProvider_catch_lite :: "ProviderStatus_lite \<Rightarrow> ProviderStatus_lite" where
  "loadProvider_catch_lite ps =
     ps\<lparr> library_lite := Null, active_lite := False, activeProvider_lite := Null \<rparr>"

definition loadProvider_lite :: "ProviderStore_lite \<Rightarrow> provider jsval \<Rightarrow> bool \<Rightarrow> ProviderStore_lite" where
  "loadProvider_lite st pv rejects =
     (case loadProvider_try_lite st pv rejects of
        Inr st' \<Rightarrow> st'
      | Inl st' \<Rightarrow> st'\<lparr>providerStatus_lite := loadProvider_catch_lite (providerStatus_lite st')\<rparr>)"

definition loadProvider_succeeds_lite :: "ProviderStore_lite \<Rightarrow> provider jsval \<Rightarrow> bool \<Rightarrow> bool" where
  "loadProvider_succeeds_lite st pv rejects =
     (case loadProvider_try_lite st pv rejects of Inr _ \<Rightarrow> True | Inl _ \<Rightarrow> False)"

definition handleNetworkChanged_lite ::
  "ProviderStore_lite \<Rightarrow> string + int \<Rightarrow> backup_reply \<Rightarrow> ProviderStore_lite" where
  "handleNetworkChanged_lite st networkId r =
     (if active_lite (providerStatus_lite st)
      then log_call_lite (BlockchainFetch True) (loadWeb3_lite st r)
      else st)"

definition handleClose_lite :: "ProviderStore_lite \<Rightarrow> backup_reply \<Rightarrow> ProviderStore_lite" where
  "handleClose_lite st r = (if active_lite (providerStatus_lite st) then loadWeb3_lite st r else st)"

datatype op_lite =
    LoadProvider_lite "provider jsval" bool
  | LoadWeb3_lite backup_reply
  | HandleNetworkChanged_lite "string + int" backup_reply
  | HandleClose_lite backup_reply

fun perform_lite :: "ProviderStore_lite \<Rightarrow> op_lite \<Rightarrow> ProviderStore_lite" where
  "perform_lite st (LoadProvider_lite pv rejects) = loadProvider_lite st pv rejects"
| "perform_lite st (LoadWeb3_lite r) = loadWeb3_lite st r"
| "perform_lite st (HandleNetworkChanged_lite n r) = handleNetworkChanged_lite st n r"
| "perform_lite st (HandleClose_lite r) = handleClose_lite st r"

fun loadProviders_lite ::
  "ProviderStore_lite \<Rightarrow> (provider jsval \<times> bool) list \<Rightarrow> ProviderStore_lite option" where
  "loadProviders_lite st [] = Some st"
| "loadProviders_lite st ((pv, rejects) # rest) =
     (if loadProvider_succeeds_lite st pv rejects
      then loadProviders_lite (loadProvider_lite st pv rejects) rest
      else None)"

subsection \<open>The invariant of the connection state\<close>

text \<open>\<open>active == true\<close> implies \<open>library != null\<close> and \<open>activeProvider != null\<close>.\<close>

definition active_invariant :: "ProviderStatus \<Rightarrow> bool" where
  "active_invariant ps = (active ps \<longrightarrow> non_null (library ps) \<and> non_null (activeProvider ps))"

definition active_invariant_lite :: "ProviderStatus_lite \<Rightarrow> bool" where
  "active_invariant_lite ps =
     (active_lite ps \<longrightarrow> non_null (library_lite ps) \<and> non_null (activeProvider_lite ps))"

subsection \<open>A library for running the model\<close>

text \<open>
  A stand-in for the RPC library and the ABI table. It takes for an address the strings
  \<open>0x\<close> followed by forty digits or lower-case hexadecimal letters (the real validator
  takes these without a checksum test, and other spellings besides). Its table has one
  entry, the pool's function \<open>finalize()\<close>, which has no parameters and whose encoded
  call is its four-byte selector.
\<close>

definition example_lib :: "string ethers_lib" where
  "example_lib =
     \<lparr> accepts_address =
         (\<lambda>a. length a = 42 \<and> take 2 a = ''0x''
               \<and> list_all (\<lambda>c. c \<in> set ''0123456789abcdef'') (drop 2 a)),
       abi_functions =
         (\<lambda>ctype action.
            if ctype = BPool \<and> action = ''finalize''
            then Some (\<lambda>params. if params = [] then Some ''0x4bb278f3'' else None)
            else None) \<rparr>"

subsection \<open>Concrete inputs\<close>

text \<open>Two wallet handles that can take listeners, and one that cannot.\<close>

definition wallet_one :: provider where
  "wallet_one = \<lparr>hid = 1, has_on = True, isMetaMask = True\<rparr>"

definition wallet_two :: provider where
  "wallet_two = \<lparr>hid = 2, has_on = True, isMetaMask = False\<rparr>"

definition plain_handle :: provider where
  "plain_handle = \<lparr>hid = 3, has_on = False, isMetaMask = False\<rparr>"

text \<open>A wallet that answers both queries, and one whose account query throws.\<close>

definition wallet_answers :: injected_env where
  "wallet_answers =
     \<lparr>close_rejects = False, web3_ctor_throws = False,
       network_reply = Some 1, accounts_reply = Some [''0xABC'', ''0xDEF'']\<rparr>"

definition accounts_query_throws :: injected_env where
  "accounts_query_throws =
     \<lparr>close_rejects = False, web3_ctor_throws = False,
       network_reply = Some 5, accounts_reply = None\<rparr>"


text \<open>
  The store after this history: the fallback endpoint loads on chain 1; a wallet handle is
  then loaded but its network query throws; the wallet then reports the account
  \<open>0xABC\<close>. The \<open>catch\<close> block of \<open>loadProvider\<close> has set \<open>library\<close> to
  \<open>null\<close> and has left \<open>activeChainId\<close> alone.
\<close>

definition store_without_library :: ProviderStore where
  "store_without_library =
     handleAccountsChanged
       (loadProvider
          (loadWeb3 init_store (NetworkOk \<lparr>client_id = 0, has_close = False\<rparr> 1))
          (Val \<lparr>hid = 1, has_on = True, isMetaMask = True\<rparr>)
          \<lparr>close_rejects = False, web3_ctor_throws = False,
            network_reply = None, accounts_reply = None\<rparr>)
       [''0xABC''] JsonRpcCtorThrows"

text \<open>The store after the fallback endpoint has loaded on chain 1 and the wallet has
  reported the account \<open>0xABC\<close>.\<close>

definition store_with_library :: ProviderStore where
  "store_with_library =
     handleAccountsChanged
       (loadWeb3 init_store (NetworkOk \<lparr>client_id = 0, has_close = False\<rparr> 1))
       [''0xABC''] JsonRpcCtorThrows"

text \<open>The same history with an account that is an address.\<close>

definition store_ready :: ProviderStore where
  "store_ready =
     handleAccountsChanged
       (loadWeb3 init_store (NetworkOk \<lparr>client_id = 0, has_close = False\<rparr> 1))
       [''0x1111111111111111111111111111111111111111''] JsonRpcCtorThrows"

subsection \<open>The listeners that belong to the current state\<close>

text \<open>
  The registrations that the store should hold for a value of \<open>activeProvider\<close>:
  those of \<open>loadProvider\<close> on a handle that can take listeners, none otherwise.
\<close>

fun expected_listeners :: "active_provider jsval \<Rightarrow> subscription list" where
  "expected_listeners (Val (Injected p)) = (if has_on p then subscriptions p else [])"
| "expected_listeners _ = []"

fun expected_listeners_lite :: "active_provider jsval \<Rightarrow> subscription list" where
  "expected_listeners_lite (Val (Injected p)) = (if has_on p then subscriptions_lite p else [])"
| "expected_listeners_lite _ = []"

section \<open>Properties\<close>

text \<open>
  C1. Whatever the store held before, when the network query inside \<open>loadWeb3\<close>
  fails the store is left with \<open>active = false\<close>, \<open>library = null\<close>,
  \<open>activeProvider = null\<close>, \<open>backUpLoaded = false\<close>, \<open>activeChainId = null\<close>
  and \<open>error\<close> holding \<open>NoWeb3\<close>. This holds in both variants.
\<close>

theorem loadWeb3_failure_clears:
  "active (providerStatus (loadWeb3 st (GetNetworkThrows w))) = False
   \<and> library (providerStatus (loadWeb3 st (GetNetworkThrows w))) = Null
   \<and> activeProvider (providerStatus (loadWeb3 st (GetNetworkThrows w))) = Null
   \<and> backUpLoaded (providerStatus (loadWeb3 st (GetNetworkThrows w))) = False
   \<and> activeChainId (providerStatus (loadWeb3 st (GetNetworkThrows w))) = Null
   \<and> error (providerStatus (loadWeb3 st (GetNetworkThrows w))) = Val NoWeb3
   \<and> active_lite (providerStatus_lite (loadWeb3_lite sl (GetNetworkThrows w))) = False
   \<and> library_lite (providerStatus_lite (loadWeb3_lite sl (GetNetworkThrows w))) = Null
   \<and> activeProvider_lite (providerStatus_lite (loadWeb3_lite sl (GetNetworkThrows w))) = Null
   \<and> backUpLoaded_lite (providerStatus_lite (loadWeb3_lite sl (GetNetworkThrows w))) = False
   \<and> activeChainId_lite (providerStatus_lite (loadWeb3_lite sl (GetNetworkThrows w))) = Null
   \<and> error_lite (providerStatus_lite (loadWeb3_lite sl (GetNetworkThrows w))) = Val NoWeb3"
  by (simp add: loadWeb3_catch_def loadWeb3_catch_lite_def)

subsection \<open>Helper facts\<close>

lemma fold_remove_subs: "fold removeListener (subscriptions p) (subscriptions p) = []"
  by (simp add: subscriptions_def removeListener_def)

lemma fold_on_subs: "fold on (subscriptions p) [] = subscriptions p"
  by (simp add: subscriptions_def on_def)

lemma fold_remove_subs_lite:
  "fold removeListener (subscriptions_lite p) (subscriptions_lite p) = []"
  by (simp add: subscriptions_lite_def removeListener_def)

lemma fold_on_subs_lite: "fold on (subscriptions_lite p) [] = subscriptions_lite p"
  by (simp add: subscriptions_lite_def on_def)

lemma store_without_library_status:
  "providerStatus store_without_library =
     \<lparr> activeChainId = Val 1, account = Val ''0xABC'', library = Null,
       active = False, injectedLoaded = False, injectedActive = False,
       injectedChainId = Null, injectedWeb3 = Undefined,
       backUpLoaded = True, backUpWeb3 = Val \<lparr>client_id = 0, has_close = False\<rparr>,
       activeProvider = Null, error = Undefined \<rparr>"
  by (simp add: store_without_library_def init_store_def loadProvider_def
        loadProvider_try_def loadProvider_catch_def log_call_def Let_def)

lemma store_with_library_status:
  "providerStatus store_with_library =
     \<lparr> activeChainId = Val 1, account = Val ''0xABC'',
       library = Val \<lparr>client_id = 0, has_close = False\<rparr>,
       active = True, injectedLoaded = False, injectedActive = False,
       injectedChainId = Undefined, injectedWeb3 = Undefined,
       backUpLoaded = True, backUpWeb3 = Val \<lparr>client_id = 0, has_close = False\<rparr>,
       activeProvider = Val Backup, error = Undefined \<rparr>"
  by (simp add: store_with_library_def init_store_def log_call_def)

subsection \<open>Transaction encoding\<close>

lemma store_ready_status:
  "providerStatus store_ready =
     \<lparr> activeChainId = Val 1, account = Val ''0x1111111111111111111111111111111111111111'',
       library = Val \<lparr>client_id = 0, has_close = False\<rparr>,
       active = True, injectedLoaded = False, injectedActive = False,
       injectedChainId = Undefined, injectedWeb3 = Undefined,
       backUpLoaded = True, backUpWeb3 = Val \<lparr>client_id = 0, has_close = False\<rparr>,
       activeProvider = Val Backup, error = Undefined \<rparr>"
  by (simp add: store_ready_def init_store_def log_call_def)

lemma example_lib_accepts:
  "accepts_address example_lib ''0x1111111111111111111111111111111111111111''"
  by (simp add: example_lib_def)

lemma example_lib_rejects: "\<not> accepts_address example_lib ''0xABC''"
  by (simp add: example_lib_def)

lemma example_lib_finalize:
  "abi_functions example_lib BPool ''finalize''
     = Some (\<lambda>params. if params = [] then Some ''0x4bb278f3'' else None)"
  by (simp add: example_lib_def)

lemma example_lib_drain: "abi_functions example_lib BPool ''drain'' = None"
  by (simp add: example_lib_def)

text \<open>
  C2. \<open>encodeTransaction\<close> tests the stored account first and the stored chain id
  second. "Unset" is read as the source tests it, by \<open>!account\<close> and \<open>!chainId\<close>:
  \<open>undefined\<close>, \<open>null\<close>, the empty string, the number 0. When the account is
  unset the call throws \<open>BlockchainActionNoAccount\<close>; when the account is set and the
  chain id is unset it throws \<open>BlockchainActionNoChainId\<close>. In both cases the result
  is the thrown error itself (the method is not \<open>async\<close>), and the store that comes
  back is the store that went in, list of collaborator calls included: no signer was
  requested, no contract bound, nothing encoded.
\<close>

theorem encodeTransaction_preconditions:
  "(\<not> truthy_str (account (providerStatus st)) \<longrightarrow>
      encodeTransaction lib st ct addr action params ov
        = (Inl (Error BlockchainActionNoAccount), st))
   \<and> (truthy_str (account (providerStatus st))
        \<and> \<not> truthy_num (activeChainId (providerStatus st)) \<longrightarrow>
      encodeTransaction lib st ct addr action params ov
        = (Inl (Error BlockchainActionNoChainId), st))"
  by (simp add: encodeTransaction_def)

theorem encodeTransaction_preconditions_witness:
  "\<not> truthy_str (account (providerStatus init_store))
   \<and> encodeTransaction example_lib init_store BPool
         ''0x2222222222222222222222222222222222222222'' ''finalize'' [] (None :: unit option)
       = (Inl (Error BlockchainActionNoAccount), init_store)
   \<and> truthy_str (account (providerStatus
         (handleAccountsChanged init_store [''0xABC''] JsonRpcCtorThrows)))
   \<and> \<not> truthy_num (activeChainId (providerStatus
         (handleAccountsChanged init_store [''0xABC''] JsonRpcCtorThrows)))
   \<and> encodeTransaction example_lib
         (handleAccountsChanged init_store [''0xABC''] JsonRpcCtorThrows)
         BPool ''0x2222222222222222222222222222222222222222'' ''finalize'' []
         (None :: unit option)
       = (Inl (Error BlockchainActionNoChainId),
          handleAccountsChanged init_store [''0xABC''] JsonRpcCtorThrows)"
  using encodeTransaction_preconditions
          [of init_store example_lib BPool "''0x2222222222222222222222222222222222222222''"
              "''finalize''" "[]" "None :: unit option"]
        encodeTransaction_preconditions
          [of "handleAccountsChanged init_store [''0xABC''] JsonRpcCtorThrows"
              example_lib BPool "''0x2222222222222222222222222222222222222222''"
              "''finalize''" "[]" "None :: unit option"]
  by (simp add: init_store_def log_call_def)

text \<open>
  C3, as the source has it. When the stored account and chain id are set, the stored
  library is a live client that takes the stored account for an address, the ABI of the
  contract type has a function named \<open>action\<close> and that function's encoder takes
  \<open>params\<close>, \<open>encodeTransaction\<close> returns the descriptor whose \<open>to\<close> is the
  supplied contract address, whose \<open>value\<close> is 0 (with or without overrides) and whose
  \<open>data\<close> is the encoded call.
\<close>

theorem encodeTransaction_descriptor:
  assumes "account (providerStatus st) = Val a" and "a \<noteq> []"
    and "truthy_num (activeChainId (providerStatus st))"
    and "library (providerStatus st) = Val l"
    and "accepts_address lib a"
    and "abi_functions lib ct action = Some f"
    and "f params = Some d"
  shows "fst (encodeTransaction lib st ct addr action params ov)
           = Inr \<lparr>tx_data = d, tx_to = addr, tx_value = 0\<rparr>"
  using assms
  by (simp add: encodeTransaction_def getContract_def Let_def)

theorem encodeTransaction_descriptor_witness:
  "account (providerStatus store_ready) = Val ''0x1111111111111111111111111111111111111111''
   \<and> truthy_num (activeChainId (providerStatus store_ready))
   \<and> library (providerStatus store_ready) = Val \<lparr>client_id = 0, has_close = False\<rparr>
   \<and> accepts_address example_lib ''0x1111111111111111111111111111111111111111''
   \<and> fst (encodeTransaction example_lib store_ready BPool
            ''0x2222222222222222222222222222222222222222'' ''finalize'' []
            (None :: unit option))
       = Inr \<lparr>tx_data = ''0x4bb278f3'',
              tx_to = ''0x2222222222222222222222222222222222222222'', tx_value = 0\<rparr>"
proof -
  have h1: "account (providerStatus store_ready)
              = Val ''0x1111111111111111111111111111111111111111''"
    by (simp add: store_ready_status)
  have h2: "''0x1111111111111111111111111111111111111111'' \<noteq> []"
    by simp
  have h3: "truthy_num (activeChainId (providerStatus store_ready))"
    by (simp add: store_ready_status)
  have h4: "library (providerStatus store_ready) = Val \<lparr>client_id = 0, has_close = False\<rparr>"
    by (simp add: store_ready_status)
  have h7: "(\<lambda>params :: string list. if params = [] then Some ''0x4bb278f3'' else None) []
              = Some ''0x4bb278f3''"
    by simp
  from encodeTransaction_descriptor
         [where lib = example_lib and ct = BPool and action = "''finalize''"
            and params = "[]" and ov = "None :: unit option"
            and addr = "''0x2222222222222222222222222222222222222222''",
          OF h1 h2 h3 h4 example_lib_accepts example_lib_finalize h7]
       h1 h3 h4 example_lib_accepts
  show ?thesis by blast
qed

text \<open>
  C3, as the claim has it, fails; three stores in which the account is set and the chain
  id is 1 show it. In \<open>store_without_library\<close> the library is \<open>null\<close> and the call
  throws a \<open>TypeError\<close>, since \<open>getProviderOrSigner\<close> reads \<open>getSigner\<close> of
  it. In \<open>store_with_library\<close> the library is live, but the account \<open>0xABC\<close>,
  taken from the wallet's event as it came, is no address, and \<open>getSigner\<close> rejects
  it. In \<open>store_ready\<close> library and account are in order, and a call for an action that
  the ABI does not hold throws a \<open>TypeError\<close>.
\<close>

theorem encodeTransaction_descriptor_counterexample:
  "account (providerStatus store_without_library) = Val ''0xABC''
   \<and> activeChainId (providerStatus store_without_library) = Val 1
   \<and> fst (encodeTransaction example_lib store_without_library BPool
            ''0x2222222222222222222222222222222222222222'' ''finalize'' []
            (None :: unit option)) = Inl TypeError
   \<and> account (providerStatus store_with_library) = Val ''0xABC''
   \<and> activeChainId (providerStatus store_with_library) = Val 1
   \<and> fst (encodeTransaction example_lib store_with_library BPool
            ''0x2222222222222222222222222222222222222222'' ''finalize'' []
            (None :: unit option)) = Inl InvalidAddress
   \<and> account (providerStatus store_ready) = Val ''0x1111111111111111111111111111111111111111''
   \<and> activeChainId (providerStatus store_ready) = Val 1
   \<and> fst (encodeTransaction example_lib store_ready BPool
            ''0x2222222222222222222222222222222222222222'' ''drain'' []
            (None :: unit option)) = Inl TypeError"
  by (simp add: store_without_library_status store_with_library_status store_ready_status
        encodeTransaction_def getContract_def example_lib_accepts example_lib_rejects
        example_lib_drain)

subsection \<open>Loading a wallet provider\<close>

lemma loadProvider_succeeds_iff:
  "loadProvider_succeeds st pv env \<longleftrightarrow>
     non_null pv
     \<and> \<not> (closing (library (providerStatus st)) \<noteq> None \<and> close_rejects env)
     \<and> \<not> web3_ctor_throws env
     \<and> network_reply env \<noteq> None \<and> accounts_reply env \<noteq> None"
  by (cases pv)
     (auto simp: loadProvider_succeeds_def loadProvider_try_def Let_def log_call_def
           split: option.splits)

lemma loadProvider_failure_status:
  "\<not> loadProvider_succeeds st pv env \<Longrightarrow>
     providerStatus (loadProvider st pv env) = loadProvider_catch (providerStatus st)"
  by (cases pv)
     (auto simp: loadProvider_succeeds_def loadProvider_def loadProvider_try_def Let_def log_call_def
           split: option.splits if_splits)

lemma loadProvider_success_status:
  "loadProvider_succeeds st (Val p) env \<Longrightarrow>
     network_reply env = Some chainId \<Longrightarrow> accounts_reply env = Some accounts \<Longrightarrow>
     providerStatus (loadProvider st (Val p) env) =
       (providerStatus st)
         \<lparr> injectedLoaded := True, injectedChainId := Val chainId,
           account := (case accounts of [] \<Rightarrow> Null | a # _ \<Rightarrow> Val a),
           injectedWeb3 := Val (Web3Provider p),
           activeProvider := Val (Injected p) \<rparr>"
  by (auto simp: loadProvider_succeeds_def loadProvider_def loadProvider_try_def Let_def log_call_def
           split: option.splits if_splits)

lemma loadProvider_success_calls:
  "loadProvider_succeeds st (Val p) env \<Longrightarrow>
     \<exists>cs. calls (loadProvider st (Val p) env) = calls st @ cs @ [GetNetwork p, ListAccounts p]"
  by (auto simp: loadProvider_succeeds_def loadProvider_def loadProvider_try_def Let_def log_call_def
           split: option.splits if_splits)

text \<open>
  C4. A successful \<open>loadProvider(handle)\<close> has asked the handle for its network and
  then for its accounts (the two last calls it makes), and the connection state it leaves is
  the prior one with \<open>injectedLoaded = true\<close>, \<open>injectedChainId\<close> from the
  network query, \<open>account\<close> the first of the account list (\<open>null\<close> for an empty
  list), \<open>injectedWeb3\<close> and \<open>activeProvider = handle\<close> written together. When
  either query throws the call is not successful, and after an unsuccessful call the
  connection state is the \<open>catch\<close> block applied to the prior state: none of the
  new values is kept, whatever the queries had answered before the failure. (The listeners
  are registered on the handle before the queries and are not part of the connection
  state; a failed query does not take them off again.)
\<close>

theorem loadProvider_commits_after_queries:
  "(loadProvider_succeeds st pv env \<longrightarrow>
      (\<exists>p chainId accounts cs.
          pv = Val p \<and> network_reply env = Some chainId \<and> accounts_reply env = Some accounts
          \<and> calls (loadProvider st pv env) = calls st @ cs @ [GetNetwork p, ListAccounts p]
          \<and> providerStatus (loadProvider st pv env) =
              (providerStatus st)
                \<lparr> injectedLoaded := True, injectedChainId := Val chainId,
                  account := (case accounts of [] \<Rightarrow> Null | a # _ \<Rightarrow> Val a),
                  injectedWeb3 := Val (Web3Provider p),
                  activeProvider := Val (Injected p) \<rparr>))
   \<and> (network_reply env = None \<or> accounts_reply env = None \<longrightarrow>
        \<not> loadProvider_succeeds st pv env)
   \<and> (\<not> loadProvider_succeeds st pv env \<longrightarrow>
        providerStatus (loadProvider st pv env) = loadProvider_catch (providerStatus st))"
proof (intro conjI impI)
  assume ok: "loadProvider_succeeds st pv env"
  then obtain p chainId accounts where
    pv: "pv = Val p" and n: "network_reply env = Some chainId"
    and a: "accounts_reply env = Some accounts"
    by (cases pv) (auto simp: loadProvider_succeeds_iff)
  from ok pv obtain cs where
    "calls (loadProvider st pv env) = calls st @ cs @ [GetNetwork p, ListAccounts p]"
    using loadProvider_success_calls by blast
  with ok pv n a loadProvider_success_status [of st p env chainId accounts]
  show "\<exists>p chainId accounts cs.
          pv = Val p \<and> network_reply env = Some chainId \<and> accounts_reply env = Some accounts
          \<and> calls (loadProvider st pv env) = calls st @ cs @ [GetNetwork p, ListAccounts p]
          \<and> providerStatus (loadProvider st pv env) =
              (providerStatus st)
                \<lparr> injectedLoaded := True, injectedChainId := Val chainId,
                  account := (case accounts of [] \<Rightarrow> Null | a # _ \<Rightarrow> Val a),
                  injectedWeb3 := Val (Web3Provider p),
                  activeProvider := Val (Injected p) \<rparr>"
    by blast
next
  assume "network_reply env = None \<or> accounts_reply env = None"
  then show "\<not> loadProvider_succeeds st pv env"
    by (auto simp: loadProvider_succeeds_iff)
next
  assume "\<not> loadProvider_succeeds st pv env"
  then show "providerStatus (loadProvider st pv env) = loadProvider_catch (providerStatus st)"
    by (rule loadProvider_failure_status)
qed

lemma wallet_one_loaded:
  "loadProvider_try init_store (Val wallet_one) wallet_answers =
     Inr (init_store
           \<lparr> providerStatus :=
               (providerStatus init_store)
                 \<lparr> injectedLoaded := True, injectedChainId := Val 1,
                   account := Val ''0xABC'',
                   injectedWeb3 := Val (Web3Provider wallet_one),
                   activeProvider := Val (Injected wallet_one) \<rparr>,
             listeners := subscriptions wallet_one,
             calls := [NewWeb3Provider wallet_one, AutoRefreshOff wallet_one,
                       GetNetwork wallet_one, ListAccounts wallet_one] \<rparr>)"
  by (simp add: loadProvider_try_def Let_def log_call_def init_store_def wallet_one_def
        wallet_answers_def subscriptions_def on_def)

theorem loadProvider_commits_after_queries_witness:
  "loadProvider_succeeds init_store (Val wallet_one) wallet_answers
   \<and> calls (loadProvider init_store (Val wallet_one) wallet_answers)
       = [NewWeb3Provider wallet_one, AutoRefreshOff wallet_one,
          GetNetwork wallet_one, ListAccounts wallet_one]
   \<and> providerStatus (loadProvider init_store (Val wallet_one) wallet_answers)
       = (providerStatus init_store)
           \<lparr> injectedLoaded := True, injectedChainId := Val 1, account := Val ''0xABC'',
             injectedWeb3 := Val (Web3Provider wallet_one),
             activeProvider := Val (Injected wallet_one) \<rparr>
   \<and> (network_reply accounts_query_throws = None \<or> accounts_reply accounts_query_throws = None)
   \<and> \<not> loadProvider_succeeds (loadProvider init_store (Val wallet_one) wallet_answers)
         (Val wallet_two) accounts_query_throws
   \<and> providerStatus
        (loadProvider (loadProvider init_store (Val wallet_one) wallet_answers)
           (Val wallet_two) accounts_query_throws)
       = loadProvider_catch
           (providerStatus (loadProvider init_store (Val wallet_one) wallet_answers))"
proof -
  let ?s1 = "loadProvider init_store (Val wallet_one) wallet_answers"
  have ok: "loadProvider_succeeds init_store (Val wallet_one) wallet_answers"
    by (simp add: loadProvider_succeeds_def wallet_one_loaded)
  have q: "network_reply accounts_query_throws = None \<or> accounts_reply accounts_query_throws = None"
    by (simp add: accounts_query_throws_def)
  from loadProvider_commits_after_queries [of init_store "Val wallet_one" wallet_answers] ok
  have st: "providerStatus ?s1
       = (providerStatus init_store)
           \<lparr> injectedLoaded := True, injectedChainId := Val 1, account := Val ''0xABC'',
             injectedWeb3 := Val (Web3Provider wallet_one),
             activeProvider := Val (Injected wallet_one) \<rparr>"
    by (auto simp: wallet_answers_def)
  have cs: "calls ?s1 = [NewWeb3Provider wallet_one, AutoRefreshOff wallet_one,
          GetNetwork wallet_one, ListAccounts wallet_one]"
    by (simp add: loadProvider_def wallet_one_loaded)
  from loadProvider_commits_after_queries [of ?s1 "Val wallet_two" accounts_query_throws] q
  have bad: "\<not> loadProvider_succeeds ?s1 (Val wallet_two) accounts_query_throws"
    and cleared: "providerStatus (loadProvider ?s1 (Val wallet_two) accounts_query_throws)
                   = loadProvider_catch (providerStatus ?s1)"
    by blast+
  from ok cs st q bad cleared show ?thesis by blast
qed

subsection \<open>Listeners across reloads\<close>

lemma loadProvider_success_listeners:
  assumes "listeners st = expected_listeners (activeProvider (providerStatus st))"
    and "loadProvider_succeeds st pv env"
  shows "\<exists>p. pv = Val p
           \<and> activeProvider (providerStatus (loadProvider st pv env)) = Val (Injected p)
           \<and> listeners (loadProvider st pv env) = expected_listeners (Val (Injected p))"
proof -
  from assms(2) obtain p where pv: "pv = Val p"
    by (cases pv) (auto simp: loadProvider_succeeds_iff)
  have rm: "removeOldListeners (activeProvider (providerStatus st)) (listeners st) = []"
    using assms(1)
    by (cases "(activeProvider (providerStatus st), listeners st)" rule: removeOldListeners.cases)
       (auto simp: fold_remove_subs)
  show ?thesis
    using assms(2) pv rm
    by (auto simp: loadProvider_succeeds_def loadProvider_def loadProvider_try_def Let_def
          log_call_def fold_on_subs split: option.splits if_splits)
qed

lemma loadProviders_append:
  "loadProviders st (xs @ ys) =
     (case loadProviders st xs of None \<Rightarrow> None | Some st' \<Rightarrow> loadProviders st' ys)"
  by (induction st xs rule: loadProviders.induct) auto

lemma loadProviders_listeners:
  "listeners st = expected_listeners (activeProvider (providerStatus st)) \<Longrightarrow>
   loadProviders st xs = Some st' \<Longrightarrow>
   listeners st' = expected_listeners (activeProvider (providerStatus st'))"
proof (induction st xs rule: loadProviders.induct)
  case (1 st)
  then show ?case by simp
next
  case (2 st pv env rest)
  from "2.prems"(2) have ok: "loadProvider_succeeds st pv env"
    and rest: "loadProviders (loadProvider st pv env) rest = Some st'"
    by (auto split: if_splits)
  from loadProvider_success_listeners [OF "2.prems"(1) ok]
  have "listeners (loadProvider st pv env)
          = expected_listeners (activeProvider (providerStatus (loadProvider st pv env)))"
    by auto
  with "2.IH" ok rest show ?case by simp
qed

lemma loadProviders_snoc:
  "loadProviders st (xs @ [(pv, env)]) = Some st' \<Longrightarrow>
     \<exists>s. loadProviders st xs = Some s \<and> loadProvider_succeeds s pv env
         \<and> st' = loadProvider s pv env"
  by (auto simp: loadProviders_append split: option.splits if_splits)

lemma subscriptions_distinct: "distinct (subscriptions p)"
  by (simp add: subscriptions_def)

lemma subscriptions_handles: "subscribed_handles (subscriptions p) = {p}"
  by (simp add: subscriptions_def subscribed_handles_def)

lemma init_store_listeners:
  "listeners init_store = expected_listeners (activeProvider (providerStatus init_store))"
  by (simp add: init_store_def)

lemma listeners_after_loads:
  assumes "loadProviders init_store (xs @ [(pv, env)]) = Some st"
  shows "\<exists>p. pv = Val p \<and> activeProvider (providerStatus st) = Val (Injected p)
            \<and> listeners st = (if has_on p then subscriptions p else [])"
proof -
  from loadProviders_snoc [OF assms] obtain s where
    s: "loadProviders init_store xs = Some s" and ok: "loadProvider_succeeds s pv env"
    and st: "st = loadProvider s pv env"
    by blast
  from loadProviders_listeners [OF init_store_listeners s]
  have "listeners s = expected_listeners (activeProvider (providerStatus s))" .
  from loadProvider_success_listeners [OF this ok] st show ?thesis by auto
qed

subsection \<open>The lite variant of these facts\<close>

lemma loadProvider_succeeds_lite_iff:
  "loadProvider_succeeds_lite st pv rejects \<longleftrightarrow>
     non_null pv \<and> \<not> (closing (library_lite (providerStatus_lite st)) \<noteq> None \<and> rejects)"
  by (cases pv)
     (auto simp: loadProvider_succeeds_lite_def loadProvider_try_lite_def Let_def
           split: option.splits)

lemma loadProvider_success_listeners_lite:
  assumes "listeners_lite st
             = expected_listeners_lite (activeProvider_lite (providerStatus_lite st))"
    and "loadProvider_succeeds_lite st pv rejects"
  shows "\<exists>p. pv = Val p
           \<and> activeProvider_lite (providerStatus_lite (loadProvider_lite st pv rejects))
               = Val (Injected p)
           \<and> listeners_lite (loadProvider_lite st pv rejects)
               = expected_listeners_lite (Val (Injected p))"
proof -
  from assms(2) obtain p where pv: "pv = Val p"
    by (cases pv) (auto simp: loadProvider_succeeds_lite_iff)
  have rm: "removeOldListeners_lite (activeProvider_lite (providerStatus_lite st))
              (listeners_lite st) = []"
    using assms(1)
    by (cases "(activeProvider_lite (providerStatus_lite st), listeners_lite st)"
          rule: removeOldListeners_lite.cases)
       (auto simp: fold_remove_subs_lite)
  show ?thesis
    using assms(2) pv rm
    by (auto simp: loadProvider_succeeds_lite_def loadProvider_lite_def
          loadProvider_try_lite_def Let_def log_call_lite_def fold_on_subs_lite
          split: option.splits if_splits)
qed

lemma loadProviders_append_lite:
  "loadProviders_lite st (xs @ ys) =
     (case loadProviders_lite st xs of None \<Rightarrow> None | Some st' \<Rightarrow> loadProviders_lite st' ys)"
  by (induction st xs rule: loadProviders_lite.induct) auto

lemma loadProviders_listeners_lite:
  "listeners_lite st = expected_listeners_lite (activeProvider_lite (providerStatus_lite st)) \<Longrightarrow>
   loadProviders_lite st xs = Some st' \<Longrightarrow>
   listeners_lite st' = expected_listeners_lite (activeProvider_lite (providerStatus_lite st'))"
proof (induction st xs rule: loadProviders_lite.induct)
  case (1 st)
  then show ?case by simp
next
  case (2 st pv rejects rest)
  from "2.prems"(2) have ok: "loadProvider_succeeds_lite st pv rejects"
    and rest: "loadProviders_lite (loadProvider_lite st pv rejects) rest = Some st'"
    by (auto split: if_splits)
  from loadProvider_success_listeners_lite [OF "2.prems"(1) ok]
  have "listeners_lite (loadProvider_lite st pv rejects)
          = expected_listeners_lite
              (activeProvider_lite (providerStatus_lite (loadProvider_lite st pv rejects)))"
    by auto
  with "2.IH" ok rest show ?case by simp
qed

lemma loadProviders_snoc_lite:
  "loadProviders_lite st (xs @ [(pv, rejects)]) = Some st' \<Longrightarrow>
     \<exists>s. loadProviders_lite st xs = Some s \<and> loadProvider_succeeds_lite s pv rejects
         \<and> st' = loadProvider_lite s pv rejects"
  by (auto simp: loadProviders_append_lite split: option.splits if_splits)

lemma subscriptions_distinct_lite: "distinct (subscriptions_lite p)"
  by (simp add: subscriptions_lite_def)

lemma subscriptions_handles_lite: "subscribed_handles (subscriptions_lite p) = {p}"
  by (simp add: subscriptions_lite_def subscribed_handles_def)

lemma subscribed_handles_nil: "subscribed_handles [] = {}"
  by (simp add: subscribed_handles_def)

lemma init_store_listeners_lite:
  "listeners_lite init_store_lite
     = expected_listeners_lite (activeProvider_lite (providerStatus_lite init_store_lite))"
  by (simp add: init_store_lite_def)

lemma listeners_after_loads_lite:
  assumes "loadProviders_lite init_store_lite (xs @ [(pv, rejects)]) = Some st"
  shows "\<exists>p. pv = Val p \<and> activeProvider_lite (providerStatus_lite st) = Val (Injected p)
            \<and> listeners_lite st = (if has_on p then subscriptions_lite p else [])"
proof -
  from loadProviders_snoc_lite [OF assms] obtain s where
    s: "loadProviders_lite init_store_lite xs = Some s"
    and ok: "loadProvider_succeeds_lite s pv rejects"
    and st: "st = loadProvider_lite s pv rejects"
    by blast
  from loadProviders_listeners_lite [OF init_store_listeners_lite s]
  have "listeners_lite s = expected_listeners_lite (activeProvider_lite (providerStatus_lite s))" .
  from loadProvider_success_listeners_lite [OF this ok] st show ?thesis by auto
qed

text \<open>
  C5, as the source has it. After any non-empty sequence of successful \<open>loadProvider\<close>
  calls from the initial state, the listeners of the store are exactly the registrations
  of the last handle loaded, each once, when that handle can take listeners, and there are
  none at all when it cannot. So listeners sit on at most one handle, the active one; those
  of the handle loaded before have been removed, and nothing is registered twice. This
  holds in the full variant (four registrations) and in the lite one (three).
\<close>

theorem listeners_on_last_handle_only:
  "(loadProviders init_store (xs @ [(pv, env)]) = Some st \<longrightarrow>
      (\<exists>p. pv = Val p \<and> activeProvider (providerStatus st) = Val (Injected p)
          \<and> listeners st = (if has_on p then subscriptions p else [])
          \<and> distinct (listeners st)
          \<and> subscribed_handles (listeners st) = (if has_on p then {p} else {})))
   \<and> (loadProviders_lite init_store_lite (ys @ [(pw, rejects)]) = Some sl \<longrightarrow>
      (\<exists>p. pw = Val p \<and> activeProvider_lite (providerStatus_lite sl) = Val (Injected p)
          \<and> listeners_lite sl = (if has_on p then subscriptions_lite p else [])
          \<and> distinct (listeners_lite sl)
          \<and> subscribed_handles (listeners_lite sl) = (if has_on p then {p} else {})))"
proof (intro conjI impI)
  assume "loadProviders init_store (xs @ [(pv, env)]) = Some st"
  from listeners_after_loads [OF this] obtain p where
    "pv = Val p" "activeProvider (providerStatus st) = Val (Injected p)"
    "listeners st = (if has_on p then subscriptions p else [])"
    by blast
  then show "\<exists>p. pv = Val p \<and> activeProvider (providerStatus st) = Val (Injected p)
          \<and> listeners st = (if has_on p then subscriptions p else [])
          \<and> distinct (listeners st)
          \<and> subscribed_handles (listeners st) = (if has_on p then {p} else {})"
    by (auto simp: subscriptions_distinct subscriptions_handles subscribed_handles_nil)
next
  assume "loadProviders_lite init_store_lite (ys @ [(pw, rejects)]) = Some sl"
  from listeners_after_loads_lite [OF this] obtain p where
    "pw = Val p" "activeProvider_lite (providerStatus_lite sl) = Val (Injected p)"
    "listeners_lite sl = (if has_on p then subscriptions_lite p else [])"
    by blast
  then show "\<exists>p. pw = Val p \<and> activeProvider_lite (providerStatus_lite sl) = Val (Injected p)
          \<and> listeners_lite sl = (if has_on p then subscriptions_lite p else [])
          \<and> distinct (listeners_lite sl)
          \<and> subscribed_handles (listeners_lite sl) = (if has_on p then {p} else {})"
    by (auto simp: subscriptions_distinct_lite subscriptions_handles_lite subscribed_handles_nil)
qed


text \<open>At concrete inputs: two wallets loaded one after the other.\<close>

theorem listeners_on_last_handle_only_witness:
  "loadProviders init_store ([(Val wallet_one, wallet_answers)] @ [(Val wallet_two, wallet_answers)])
     = Some (loadProvider (loadProvider init_store (Val wallet_one) wallet_answers)
               (Val wallet_two) wallet_answers)
   \<and> listeners (loadProvider (loadProvider init_store (Val wallet_one) wallet_answers)
                  (Val wallet_two) wallet_answers)
       = subscriptions wallet_two
   \<and> subscribed_handles
        (listeners (loadProvider (loadProvider init_store (Val wallet_one) wallet_answers)
                      (Val wallet_two) wallet_answers))
       = {wallet_two}
   \<and> loadProviders_lite init_store_lite ([(Val wallet_one, False)] @ [(Val wallet_two, False)])
     = Some (loadProvider_lite (loadProvider_lite init_store_lite (Val wallet_one) False)
               (Val wallet_two) False)
   \<and> listeners_lite (loadProvider_lite (loadProvider_lite init_store_lite (Val wallet_one) False)
                       (Val wallet_two) False)
       = subscriptions_lite wallet_two"
proof -
  let ?s = "loadProvider (loadProvider init_store (Val wallet_one) wallet_answers)
              (Val wallet_two) wallet_answers"
  let ?l = "loadProvider_lite (loadProvider_lite init_store_lite (Val wallet_one) False)
              (Val wallet_two) False"
  have ok1: "loadProvider_succeeds init_store (Val wallet_one) wallet_answers"
    by (simp add: loadProvider_succeeds_iff wallet_answers_def init_store_def)
  have ok2: "loadProvider_succeeds (loadProvider init_store (Val wallet_one) wallet_answers)
               (Val wallet_two) wallet_answers"
    by (simp add: loadProvider_succeeds_iff wallet_answers_def loadProvider_def
          wallet_one_loaded init_store_def)
  have run: "loadProviders init_store
               ([(Val wallet_one, wallet_answers)] @ [(Val wallet_two, wallet_answers)]) = Some ?s"
    using ok1 ok2 by simp
  have okl1: "loadProvider_succeeds_lite init_store_lite (Val wallet_one) False"
    by (simp add: loadProvider_succeeds_lite_iff)
  have okl2: "loadProvider_succeeds_lite (loadProvider_lite init_store_lite (Val wallet_one) False)
                (Val wallet_two) False"
    by (simp add: loadProvider_succeeds_lite_iff)
  have runl: "loadProviders_lite init_store_lite
                ([(Val wallet_one, False)] @ [(Val wallet_two, False)]) = Some ?l"
    using okl1 okl2 by simp
  have on2: "has_on wallet_two" by (simp add: wallet_two_def)
  note inst = listeners_on_last_handle_only
         [of "[(Val wallet_one, wallet_answers)]" "Val wallet_two" wallet_answers ?s
             "[(Val wallet_one, False)]" "Val wallet_two" False ?l]
  from inst run obtain p where
    p: "Val wallet_two = Val p" "listeners ?s = (if has_on p then subscriptions p else [])"
       "subscribed_handles (listeners ?s) = (if has_on p then {p} else {})"
    by blast
  from inst runl obtain q where
    q: "Val wallet_two = Val q"
       "listeners_lite ?l = (if has_on q then subscriptions_lite q else [])"
    by blast
  from p on2 have a: "listeners ?s = subscriptions wallet_two"
    and b: "subscribed_handles (listeners ?s) = {wallet_two}"
    by simp_all
  from q on2 have c: "listeners_lite ?l = subscriptions_lite wallet_two"
    by simp
  from run a b runl c show ?thesis by blast
qed

text \<open>
  C5, as the claim has it, fails: \<open>loadProvider\<close> tests \<open>provider.on\<close> before it
  subscribes, so a successful load of a handle without event support leaves the listeners
  on no handle at all, not on exactly one.
\<close>

theorem listeners_exactly_one_counterexample:
  "loadProviders init_store [(Val plain_handle, wallet_answers)]
     = Some (loadProvider init_store (Val plain_handle) wallet_answers)
   \<and> subscribed_handles (listeners (loadProvider init_store (Val plain_handle) wallet_answers))
       = {}"
  by (simp add: loadProvider_succeeds_def loadProvider_def loadProvider_try_def Let_def
        log_call_def init_store_def plain_handle_def wallet_answers_def subscribed_handles_def)

subsection \<open>The invariant is preserved\<close>

lemma loadWeb3_invariant: "active_invariant (providerStatus (loadWeb3 st r))"
  by (cases r) (simp_all add: active_invariant_def loadWeb3_catch_def)

lemma loadProvider_invariant:
  assumes "active_invariant (providerStatus st)"
  shows "active_invariant (providerStatus (loadProvider st pv env))"
proof (cases "loadProvider_succeeds st pv env")
  case True
  then obtain p chainId accounts where "pv = Val p" "network_reply env = Some chainId"
    "accounts_reply env = Some accounts"
    by (cases pv) (auto simp: loadProvider_succeeds_iff)
  with True assms loadProvider_success_status [of st p env chainId accounts]
  show ?thesis by (simp add: active_invariant_def)
next
  case False
  then show ?thesis
    by (simp add: loadProvider_failure_status loadProvider_catch_def active_invariant_def)
qed

lemma perform_invariant:
  "active_invariant (providerStatus st) \<Longrightarrow> active_invariant (providerStatus (perform st op))"
proof (cases op)
  case (LoadProvider pv env)
  assume "active_invariant (providerStatus st)"
  with LoadProvider show ?thesis by (simp add: loadProvider_invariant)
next
  case (LoadWeb3 r)
  then show ?thesis by (simp add: loadWeb3_invariant)
next
  case (HandleNetworkChanged n r)
  assume "active_invariant (providerStatus st)"
  with HandleNetworkChanged loadWeb3_invariant [of st r] show ?thesis
    by (simp add: handleNetworkChanged_def log_call_def)
next
  case (HandleAccountsChanged as r)
  assume "active_invariant (providerStatus st)"
  with HandleAccountsChanged loadWeb3_invariant [of st r] show ?thesis
    by (cases as) (simp_all add: handleClose_def log_call_def active_invariant_def)
next
  case (HandleClose r)
  assume "active_invariant (providerStatus st)"
  with HandleClose loadWeb3_invariant [of st r] show ?thesis
    by (simp add: handleClose_def)
next
  case (SetSafeInfo si)
  assume "active_invariant (providerStatus st)"
  with SetSafeInfo show ?thesis by (simp add: setSafeInfo_def)
qed

lemma loadWeb3_invariant_lite: "active_invariant_lite (providerStatus_lite (loadWeb3_lite st r))"
  by (cases r) (simp_all add: active_invariant_lite_def loadWeb3_catch_lite_def)

lemma loadProvider_invariant_lite:
  assumes "active_invariant_lite (providerStatus_lite st)"
  shows "active_invariant_lite (providerStatus_lite (loadProvider_lite st pv rejects))"
  using assms
  by (cases pv)
     (auto simp: loadProvider_lite_def loadProvider_try_lite_def loadProvider_catch_lite_def
        active_invariant_lite_def Let_def log_call_lite_def split: option.splits)

lemma perform_invariant_lite:
  "active_invariant_lite (providerStatus_lite st) \<Longrightarrow>
     active_invariant_lite (providerStatus_lite (perform_lite st op))"
proof (cases op)
  case (LoadProvider_lite pv rejects)
  assume "active_invariant_lite (providerStatus_lite st)"
  with LoadProvider_lite show ?thesis by (simp add: loadProvider_invariant_lite)
next
  case (LoadWeb3_lite r)
  then show ?thesis by (simp add: loadWeb3_invariant_lite)
next
  case (HandleNetworkChanged_lite n r)
  assume "active_invariant_lite (providerStatus_lite st)"
  with HandleNetworkChanged_lite loadWeb3_invariant_lite [of st r] show ?thesis
    by (simp add: handleNetworkChanged_lite_def log_call_lite_def)
next
  case (HandleClose_lite r)
  assume "active_invariant_lite (providerStatus_lite st)"
  with HandleClose_lite loadWeb3_invariant_lite [of st r] show ?thesis
    by (simp add: handleClose_lite_def)
qed

text \<open>
  C6. In both variants the predicate "\<open>active\<close> implies \<open>library != null\<close> and
  \<open>activeProvider != null\<close>" holds of the store the constructor builds, and every
  state-changing method hands it on, whatever the outside world answers: each reply, and so
  each path through a \<open>try\<close> or a \<open>catch\<close>, is an argument of \<open>perform\<close>.
\<close>

theorem active_invariant_preserved:
  "active_invariant (providerStatus init_store)
   \<and> (active_invariant (providerStatus st) \<longrightarrow>
        active_invariant (providerStatus (perform st op)))
   \<and> active_invariant_lite (providerStatus_lite init_store_lite)
   \<and> (active_invariant_lite (providerStatus_lite sl) \<longrightarrow>
        active_invariant_lite (providerStatus_lite (perform_lite sl opl)))"
  by (simp add: perform_invariant perform_invariant_lite)
     (simp add: active_invariant_def active_invariant_lite_def init_store_def init_store_lite_def)

text \<open>At concrete inputs: the fallback loads, then a wallet is loaded on top of it.\<close>

theorem active_invariant_preserved_witness:
  "active_invariant (providerStatus init_store)
   \<and> active_invariant
        (providerStatus (perform init_store (LoadWeb3 (NetworkOk \<lparr>client_id = 0, has_close = False\<rparr> 1))))
   \<and> active (providerStatus
        (perform (perform init_store (LoadWeb3 (NetworkOk \<lparr>client_id = 0, has_close = False\<rparr> 1)))
           (LoadProvider (Val wallet_one) wallet_answers)))
   \<and> non_null (library (providerStatus
        (perform (perform init_store (LoadWeb3 (NetworkOk \<lparr>client_id = 0, has_close = False\<rparr> 1)))
           (LoadProvider (Val wallet_one) wallet_answers))))
   \<and> non_null (activeProvider (providerStatus
        (perform (perform init_store (LoadWeb3 (NetworkOk \<lparr>client_id = 0, has_close = False\<rparr> 1)))
           (LoadProvider (Val wallet_one) wallet_answers))))
   \<and> active_invariant_lite (providerStatus_lite init_store_lite)
   \<and> active_lite (providerStatus_lite
        (perform_lite init_store_lite (LoadWeb3_lite (NetworkOk \<lparr>client_id = 0, has_close = False\<rparr> 1))))
   \<and> non_null (library_lite (providerStatus_lite
        (perform_lite init_store_lite (LoadWeb3_lite (NetworkOk \<lparr>client_id = 0, has_close = False\<rparr> 1)))))
   \<and> non_null (activeProvider_lite (providerStatus_lite
        (perform_lite init_store_lite (LoadWeb3_lite (NetworkOk \<lparr>client_id = 0, has_close = False\<rparr> 1)))))"
proof -
  let ?r = "NetworkOk \<lparr>client_id = 0, has_close = False\<rparr> 1"
  let ?s1 = "perform init_store (LoadWeb3 ?r)"
  let ?s2 = "perform ?s1 (LoadProvider (Val wallet_one) wallet_answers)"
  let ?l1 = "perform_lite init_store_lite (LoadWeb3_lite ?r)"
  note step1 = active_invariant_preserved [of init_store "LoadWeb3 ?r" init_store_lite "LoadWeb3_lite ?r"]
  from step1 have i0: "active_invariant (providerStatus init_store)"
    and i1: "active_invariant (providerStatus ?s1)"
    and j0: "active_invariant_lite (providerStatus_lite init_store_lite)"
    and j1: "active_invariant_lite (providerStatus_lite ?l1)"
    by blast+
  from active_invariant_preserved
         [of ?s1 "LoadProvider (Val wallet_one) wallet_answers" init_store_lite "LoadWeb3_lite ?r"] i1
  have i2: "active_invariant (providerStatus ?s2)"
    by blast
  have ok: "loadProvider_succeeds ?s1 (Val wallet_one) wallet_answers"
    by (simp add: loadProvider_succeeds_iff wallet_answers_def)
  have a2: "active (providerStatus ?s2)"
    using ok loadProvider_success_status
            [of ?s1 wallet_one wallet_answers 1 "[''0xABC'', ''0xDEF'']"]
    by (simp add: wallet_answers_def)
  have b1: "active_lite (providerStatus_lite ?l1)"
    by simp
  from i2 a2 have c2: "non_null (library (providerStatus ?s2))"
    and d2: "non_null (activeProvider (providerStatus ?s2))"
    by (simp_all add: active_invariant_def)
  from j1 b1 have c1: "non_null (library_lite (providerStatus_lite ?l1))"
    and d1: "non_null (activeProvider_lite (providerStatus_lite ?l1))"
    by (simp_all add: active_invariant_lite_def)
  from i0 i1 a2 c2 d2 j0 b1 c1 d1 show ?thesis by blast
qed

subsection \<open>Account changes\<close>

text \<open>
  C7. \<open>handleAccountsChanged\<close> with the empty list leaves the store exactly as
  \<open>handleClose\<close> does, from every store and for every answer of the fallback endpoint.
\<close>

theorem handleAccountsChanged_empty_is_handleClose:
  "handleAccountsChanged st [] r = handleClose st r"
  by simp

text \<open>
  C8. \<open>handleAccountsChanged\<close> with a non-empty list changes one field of the
  connection state, \<open>account\<close>, which becomes the first element of the list; it makes
  one call to a collaborator, the data refresh with \<open>force = true\<close>, and so no
  network query; the chain ids stay as they were. This holds of every store, those with
  \<open>active = true\<close> among them.
\<close>

theorem handleAccountsChanged_adopts_first:
  "providerStatus (handleAccountsChanged st (a # rest) r)
     = (providerStatus st)\<lparr>account := Val a\<rparr>
   \<and> account (providerStatus (handleAccountsChanged st (a # rest) r)) = Val a
   \<and> activeChainId (providerStatus (handleAccountsChanged st (a # rest) r))
       = activeChainId (providerStatus st)
   \<and> injectedChainId (providerStatus (handleAccountsChanged st (a # rest) r))
       = injectedChainId (providerStatus st)
   \<and> calls (handleAccountsChanged st (a # rest) r) = calls st @ [BlockchainFetch True]
   \<and> listeners (handleAccountsChanged st (a # rest) r) = listeners st"
  by (simp add: log_call_def)

subsection \<open>The error field and the account across loads\<close>

lemma loadProvider_error:
  "error (providerStatus (loadProvider st pv env)) = error (providerStatus st)"
proof (cases "loadProvider_succeeds st pv env")
  case True
  then obtain p chainId accounts where "pv = Val p" "network_reply env = Some chainId"
    "accounts_reply env = Some accounts"
    by (cases pv) (auto simp: loadProvider_succeeds_iff)
  with True loadProvider_success_status [of st p env chainId accounts]
  show ?thesis by simp
next
  case False
  then show ?thesis
    by (simp add: loadProvider_failure_status loadProvider_catch_def)
qed

lemma loadWeb3_error:
  "error (providerStatus (loadWeb3 st r)) = error (providerStatus st)
   \<or> error (providerStatus (loadWeb3 st r)) = Val NoWeb3"
  by (cases r) (simp_all add: loadWeb3_catch_def)

lemma perform_error:
  "error (providerStatus (perform st op)) = error (providerStatus st)
   \<or> error (providerStatus (perform st op)) = Val NoWeb3"
proof (cases op)
  case (LoadProvider pv env)
  then show ?thesis by (simp add: loadProvider_error)
next
  case (LoadWeb3 r)
  then show ?thesis using loadWeb3_error [of st r] by simp
next
  case (HandleNetworkChanged n r)
  then show ?thesis using loadWeb3_error [of st r]
    by (simp add: handleNetworkChanged_def log_call_def)
next
  case (HandleAccountsChanged as r)
  then show ?thesis using loadWeb3_error [of st r]
    by (cases as) (simp_all add: handleClose_def log_call_def)
next
  case (HandleClose r)
  then show ?thesis using loadWeb3_error [of st r] by (simp add: handleClose_def)
next
  case (SetSafeInfo si)
  then show ?thesis by (simp add: setSafeInfo_def)
qed

lemma error_sticks:
  "error (providerStatus st) = Val NoWeb3 \<Longrightarrow>
     error (providerStatus (foldl perform st ops)) = Val NoWeb3"
proof (induction ops arbitrary: st)
  case Nil
  then show ?case by simp
next
  case (Cons op ops)
  from perform_error [of st op] Cons.prems
  have "error (providerStatus (perform st op)) = Val NoWeb3" by auto
  then show ?case using Cons.IH by simp
qed

lemma loadProvider_error_lite:
  "error_lite (providerStatus_lite (loadProvider_lite st pv rejects))
     = error_lite (providerStatus_lite st)"
  by (cases pv)
     (auto simp: loadProvider_lite_def loadProvider_try_lite_def loadProvider_catch_lite_def
        Let_def log_call_lite_def split: option.splits)

lemma loadWeb3_error_lite:
  "error_lite (providerStatus_lite (loadWeb3_lite st r)) = error_lite (providerStatus_lite st)
   \<or> error_lite (providerStatus_lite (loadWeb3_lite st r)) = Val NoWeb3"
  by (cases r) (simp_all add: loadWeb3_catch_lite_def)

lemma perform_error_lite:
  "error_lite (providerStatus_lite (perform_lite st op)) = error_lite (providerStatus_lite st)
   \<or> error_lite (providerStatus_lite (perform_lite st op)) = Val NoWeb3"
proof (cases op)
  case (LoadProvider_lite pv rejects)
  then show ?thesis by (simp add: loadProvider_error_lite)
next
  case (LoadWeb3_lite r)
  then show ?thesis using loadWeb3_error_lite [of st r] by simp
next
  case (HandleNetworkChanged_lite n r)
  then show ?thesis using loadWeb3_error_lite [of st r]
    by (simp add: handleNetworkChanged_lite_def log_call_lite_def)
next
  case (HandleClose_lite r)
  then show ?thesis using loadWeb3_error_lite [of st r] by (simp add: handleClose_lite_def)
qed

lemma error_sticks_lite:
  "error_lite (providerStatus_lite st) = Val NoWeb3 \<Longrightarrow>
     error_lite (providerStatus_lite (foldl perform_lite st ops)) = Val NoWeb3"
proof (induction ops arbitrary: st)
  case Nil
  then show ?case by simp
next
  case (Cons op ops)
  from perform_error_lite [of st op] Cons.prems
  have "error_lite (providerStatus_lite (perform_lite st op)) = Val NoWeb3" by auto
  then show ?case using Cons.IH by simp
qed

lemma getProviderOrSigner_status:
  "providerStatus (snd (getProviderOrSigner accepts st lib acc)) = providerStatus st"
  by (cases "(accepts, st, lib, acc)" rule: getProviderOrSigner.cases)
     (simp_all add: Let_def log_call_def)

lemma getContract_status:
  "providerStatus (snd (getContract accepts st ctype addr acc)) = providerStatus st"
  using getProviderOrSigner_status [of accepts st "library (providerStatus st)" acc]
  by (auto simp: getContract_def log_call_def split: prod.splits sum.splits)

lemma encodeTransaction_status:
  "providerStatus (snd (encodeTransaction lib st ct addr action params ov)) = providerStatus st"
  using getContract_status [of "accepts_address lib" st ct addr "account (providerStatus st)"]
  by (auto simp: encodeTransaction_def Let_def log_call_def
        split: prod.splits sum.splits option.splits)

text \<open>
  C9. No method clears the \<open>error\<close> field. Each state-changing method leaves it as it
  was or sets it to \<open>NoWeb3\<close>, so after a failed \<open>loadWeb3\<close> it holds
  \<open>NoWeb3\<close> whatever calls follow; \<open>encodeTransaction\<close> does not touch the
  connection state. A successful \<open>loadWeb3\<close> sets \<open>active = true\<close>, replaces
  \<open>library\<close> and \<open>activeProvider\<close> and leaves \<open>error\<close> alone, so a failed
  load followed by a successful one gives \<open>active = true\<close> together with
  \<open>error = NoWeb3\<close>. Both variants behave so.
\<close>

theorem error_never_reset:
  "(error (providerStatus (perform st op)) = error (providerStatus st)
      \<or> error (providerStatus (perform st op)) = Val NoWeb3)
   \<and> error (providerStatus (foldl perform (loadWeb3 st (GetNetworkThrows w0)) ops)) = Val NoWeb3
   \<and> error (providerStatus (snd (encodeTransaction lib st ct addr action params ov)))
       = error (providerStatus st)
   \<and> error (providerStatus (loadWeb3 st (NetworkOk w c))) = error (providerStatus st)
   \<and> active (providerStatus (loadWeb3 st (NetworkOk w c))) = True
   \<and> library (providerStatus (loadWeb3 st (NetworkOk w c))) = Val w
   \<and> activeProvider (providerStatus (loadWeb3 st (NetworkOk w c))) = Val Backup
   \<and> active (providerStatus (loadWeb3 (loadWeb3 st (GetNetworkThrows w0)) (NetworkOk w c))) = True
   \<and> error (providerStatus (loadWeb3 (loadWeb3 st (GetNetworkThrows w0)) (NetworkOk w c)))
       = Val NoWeb3
   \<and> (error_lite (providerStatus_lite (perform_lite sl opl)) = error_lite (providerStatus_lite sl)
      \<or> error_lite (providerStatus_lite (perform_lite sl opl)) = Val NoWeb3)
   \<and> error_lite (providerStatus_lite (foldl perform_lite (loadWeb3_lite sl (GetNetworkThrows w0)) opsl))
       = Val NoWeb3
   \<and> error_lite (providerStatus_lite (loadWeb3_lite sl (NetworkOk w c)))
       = error_lite (providerStatus_lite sl)
   \<and> active_lite (providerStatus_lite (loadWeb3_lite sl (NetworkOk w c))) = True
   \<and> library_lite (providerStatus_lite (loadWeb3_lite sl (NetworkOk w c))) = Val w
   \<and> activeProvider_lite (providerStatus_lite (loadWeb3_lite sl (NetworkOk w c))) = Val Backup
   \<and> active_lite (providerStatus_lite
        (loadWeb3_lite (loadWeb3_lite sl (GetNetworkThrows w0)) (NetworkOk w c))) = True
   \<and> error_lite (providerStatus_lite
        (loadWeb3_lite (loadWeb3_lite sl (GetNetworkThrows w0)) (NetworkOk w c))) = Val NoWeb3"
proof -
  have a: "error (providerStatus (foldl perform (loadWeb3 st (GetNetworkThrows w0)) ops))
             = Val NoWeb3"
    by (rule error_sticks) (simp add: loadWeb3_catch_def)
  have b: "error_lite (providerStatus_lite
             (foldl perform_lite (loadWeb3_lite sl (GetNetworkThrows w0)) opsl)) = Val NoWeb3"
    by (rule error_sticks_lite) (simp add: loadWeb3_catch_lite_def)
  have c: "error (providerStatus (snd (encodeTransaction lib st ct addr action params ov)))
             = error (providerStatus st)"
    by (simp add: encodeTransaction_status)
  have d: "error (providerStatus (loadWeb3 st (NetworkOk w c))) = error (providerStatus st)
           \<and> active (providerStatus (loadWeb3 st (NetworkOk w c))) = True
           \<and> library (providerStatus (loadWeb3 st (NetworkOk w c))) = Val w
           \<and> activeProvider (providerStatus (loadWeb3 st (NetworkOk w c))) = Val Backup
           \<and> active (providerStatus (loadWeb3 (loadWeb3 st (GetNetworkThrows w0)) (NetworkOk w c)))
               = True
           \<and> error (providerStatus (loadWeb3 (loadWeb3 st (GetNetworkThrows w0)) (NetworkOk w c)))
               = Val NoWeb3"
    by (simp add: loadWeb3_catch_def)
  have e: "error_lite (providerStatus_lite (loadWeb3_lite sl (NetworkOk w c)))
             = error_lite (providerStatus_lite sl)
           \<and> active_lite (providerStatus_lite (loadWeb3_lite sl (NetworkOk w c))) = True
           \<and> library_lite (providerStatus_lite (loadWeb3_lite sl (NetworkOk w c))) = Val w
           \<and> activeProvider_lite (providerStatus_lite (loadWeb3_lite sl (NetworkOk w c))) = Val Backup
           \<and> active_lite (providerStatus_lite
                (loadWeb3_lite (loadWeb3_lite sl (GetNetworkThrows w0)) (NetworkOk w c))) = True
           \<and> error_lite (providerStatus_lite
                (loadWeb3_lite (loadWeb3_lite sl (GetNetworkThrows w0)) (NetworkOk w c))) = Val NoWeb3"
    by (simp add: loadWeb3_catch_lite_def)
  from perform_error [of st op] perform_error_lite [of sl opl] a b c d e
  show ?thesis by blast
qed

lemma loadProvider_safeInfo: "safeInfo (loadProvider st pv env) = safeInfo st"
  by (cases pv)
     (auto simp: loadProvider_def loadProvider_try_def Let_def log_call_def
           split: option.splits)

lemma loadWeb3_safeInfo: "safeInfo (loadWeb3 st r) = safeInfo st"
  by (cases r) simp_all

lemma perform_safeInfo:
  "safeInfo (perform st op) = (case op of SetSafeInfo si \<Rightarrow> Val si | _ \<Rightarrow> safeInfo st)"
proof (cases op)
  case (HandleAccountsChanged as r)
  then show ?thesis
    by (cases as) (simp_all add: handleClose_def loadWeb3_safeInfo log_call_def)
qed (simp_all add: loadProvider_safeInfo loadWeb3_safeInfo handleNetworkChanged_def
       handleClose_def setSafeInfo_def log_call_def)

text \<open>
  C10. In the full variant a successful \<open>loadWeb3\<close> writes \<open>account\<close> from the safe
  info alone: the safe address when the SDK has delivered a safe info, \<open>undefined\<close>
  when it has not. The safe info is \<open>undefined\<close> in the constructor and only
  \<open>setSafeInfo\<close>, the SDK's callback, assigns it. A network-change event, a close event
  or an empty account list on an active store runs the same \<open>loadWeb3\<close>, so the account
  adopted from the wallet before is gone after it.
\<close>

theorem loadWeb3_overwrites_account:
  "(safeInfo st = Val si \<longrightarrow>
      account (providerStatus (loadWeb3 st (NetworkOk w c))) = Val (safeAddress si))
   \<and> (safeInfo st = Undefined \<longrightarrow>
      account (providerStatus (loadWeb3 st (NetworkOk w c))) = Undefined)
   \<and> safeInfo init_store = Undefined
   \<and> safeInfo (perform st op) = (case op of SetSafeInfo si' \<Rightarrow> Val si' | _ \<Rightarrow> safeInfo st)
   \<and> (active (providerStatus st) \<longrightarrow>
        account (providerStatus (handleNetworkChanged st n (NetworkOk w c)))
          = account (providerStatus (loadWeb3 st (NetworkOk w c)))
        \<and> account (providerStatus (handleClose st (NetworkOk w c)))
          = account (providerStatus (loadWeb3 st (NetworkOk w c)))
        \<and> account (providerStatus (handleAccountsChanged st [] (NetworkOk w c)))
          = account (providerStatus (loadWeb3 st (NetworkOk w c))))"
  by (simp add: perform_safeInfo)
     (simp add: init_store_def handleNetworkChanged_def handleClose_def log_call_def)

theorem loadWeb3_overwrites_account_witness:
  "account (providerStatus (loadProvider init_store (Val wallet_one) wallet_answers)) = Val ''0xABC''
   \<and> safeInfo (loadProvider init_store (Val wallet_one) wallet_answers) = Undefined
   \<and> account (providerStatus
        (loadWeb3 (loadProvider init_store (Val wallet_one) wallet_answers)
           (NetworkOk \<lparr>client_id = 0, has_close = False\<rparr> 1))) = Undefined
   \<and> safeInfo (setSafeInfo (loadProvider init_store (Val wallet_one) wallet_answers)
                  \<lparr>safeAddress = ''0x5AFE''\<rparr>) = Val \<lparr>safeAddress = ''0x5AFE''\<rparr>
   \<and> account (providerStatus
        (loadWeb3 (setSafeInfo (loadProvider init_store (Val wallet_one) wallet_answers)
                     \<lparr>safeAddress = ''0x5AFE''\<rparr>)
           (NetworkOk \<lparr>client_id = 0, has_close = False\<rparr> 1))) = Val ''0x5AFE''
   \<and> active (providerStatus store_with_library)
   \<and> account (providerStatus store_with_library) = Val ''0xABC''
   \<and> account (providerStatus
        (handleClose store_with_library (NetworkOk \<lparr>client_id = 0, has_close = False\<rparr> 1)))
       = Undefined"
proof -
  let ?r = "NetworkOk \<lparr>client_id = 0, has_close = False\<rparr> 1"
  let ?sA = "loadProvider init_store (Val wallet_one) wallet_answers"
  let ?si = "\<lparr>safeAddress = ''0x5AFE''\<rparr>"
  let ?sB = "setSafeInfo ?sA ?si"
  have a1: "account (providerStatus ?sA) = Val ''0xABC''"
    by (simp add: loadProvider_def wallet_one_loaded)
  have a2: "safeInfo ?sA = Undefined"
    by (simp add: loadProvider_safeInfo init_store_def)
  from loadWeb3_overwrites_account [of ?sA _ "\<lparr>client_id = 0, has_close = False\<rparr>" 1] a2
  have a3: "account (providerStatus (loadWeb3 ?sA ?r)) = Undefined"
    by blast
  have b1: "safeInfo ?sB = Val ?si"
    by (simp add: setSafeInfo_def)
  from loadWeb3_overwrites_account [of ?sB ?si "\<lparr>client_id = 0, has_close = False\<rparr>" 1] b1
  have b2: "account (providerStatus (loadWeb3 ?sB ?r)) = Val ''0x5AFE''"
    by simp
  have c1: "active (providerStatus store_with_library)"
    and c2: "account (providerStatus store_with_library) = Val ''0xABC''"
    by (simp_all add: store_with_library_status)
  have c3: "safeInfo store_with_library = Undefined"
    by (simp add: store_with_library_def loadWeb3_safeInfo init_store_def log_call_def)
  from loadWeb3_overwrites_account
         [of store_with_library _ "\<lparr>client_id = 0, has_close = False\<rparr>" 1] c1 c3
  have c4: "account (providerStatus (handleClose store_with_library ?r)) = Undefined"
    by simp
  from a1 a2 a3 b1 b2 c1 c2 c4 show ?thesis by blast
qed

end
